theory Spec2Isabelle
  imports Complex_Main
begin

section \<open>Conventions\<close>

text \<open>
  The development embeds the control core of the robot: \<^verbatim>\<open>motor_controller.py\<close>
  (arcade mixing and the TB6612FNG pin writes), the avoidance loop of
  \<^verbatim>\<open>autonomous_vl53l0x.py\<close> and the command record and deadman watchdog of
  \<^verbatim>\<open>teleop_web.py\<close>.

  Python floats are idealised as real numbers: comparisons, negation and clamping are
  exact on floats, and rounding of sums and quotients as well as NaN and the infinities
  are outside the model, except for the two thresholds of \<^verbatim>\<open>from_env\<close>, where the
  source raises on them. Python exceptions are values of the type \<open>error\<close>; a function that can raise
  returns \<open>error + 'a\<close> with \<open>Inl\<close> for the exception.
\<close>

datatype error = ZeroDivisionError | OverflowError | ValueError

definition py_div :: "real \<Rightarrow> real \<Rightarrow> error + real" where
  "py_div a b = (if b = 0 then Inl ZeroDivisionError else Inr (a / b))"

section \<open>motor\_controller.py\<close>

subsection \<open>Devices\<close>

text \<open>
  One side of the driver: the duty cycle of its \<^verbatim>\<open>PWMOutputDevice\<close> and the levels of
  its two \<^verbatim>\<open>DigitalOutputDevice\<close> direction pins. A \<open>pin_write\<close> is one assignment to
  one of the three devices; the order of the writes is the order of the statements of
  the source.
\<close>

record motor =
  pwm :: real
  in1 :: bool
  in2 :: bool

datatype pin_write = PwmValue real | In1 bool | In2 bool

fun do_write :: "motor \<Rightarrow> pin_write \<Rightarrow> motor" where
  "do_write m (PwmValue v) = m\<lparr>pwm := v\<rparr>"
| "do_write m (In1 b) = m\<lparr>in1 := b\<rparr>"
| "do_write m (In2 b) = m\<lparr>in2 := b\<rparr>"

record controller =
  stby :: bool
  left :: motor
  right :: motor
  left_mult :: real
  right_mult :: real
  max_pwm :: real

subsection \<open>MotorController\<close>

definition enable :: "controller \<Rightarrow> controller" where
  "enable c = c\<lparr>stby := True\<rparr>"

definition disable :: "controller \<Rightarrow> controller" where
  "disable c = c\<lparr>stby := False\<rparr>"

text \<open>\<^verbatim>\<open>stop\<close> writes, per side, the duty cycle first and then both direction pins.\<close>

definition stop_writes :: "pin_write list" where
  "stop_writes = [PwmValue 0, In1 False, In2 False]"

definition stop :: "controller \<Rightarrow> controller" where
  "stop c = c\<lparr>left := foldl do_write (left c) stop_writes,
              right := foldl do_write (right c) stop_writes\<rparr>"

text \<open>
  \<^verbatim>\<open>MotorController.__init__\<close>: the three calibration values are stored as given
  (\<^verbatim>\<open>float(...)\<close> of a float), the devices are created at their initial level (off,
  duty cycle 0), then \<^verbatim>\<open>enable()\<close> and \<^verbatim>\<open>stop()\<close> run. The constructor has no check
  and no \<^verbatim>\<open>raise\<close>. The PWM frequency is handed to the device and is not used again.
\<close>

definition MotorController_init :: "real \<Rightarrow> real \<Rightarrow> real \<Rightarrow> controller" where
  "MotorController_init lm rm mp =
     stop (enable \<lparr>stby = False,
                   left = \<lparr>pwm = 0, in1 = False, in2 = False\<rparr>,
                   right = \<lparr>pwm = 0, in1 = False, in2 = False\<rparr>,
                   left_mult = lm, right_mult = rm, max_pwm = mp\<rparr>)"

text \<open>\<^verbatim>\<open>_clamp\<close>: \<^verbatim>\<open>lo if v < lo else hi if v > hi else v\<close>.\<close>

definition clamp :: "real \<Rightarrow> real \<Rightarrow> real \<Rightarrow> real" where
  "clamp v lo hi = (if v < lo then lo else if v > hi then hi else v)"

text \<open>
  \<^verbatim>\<open>_apply_motor\<close>: the value is clamped to \<open>[-max_pwm, max_pwm]\<close>; a positive value
  writes \<open>in1\<close>, \<open>in2\<close>, then the duty cycle; a negative one likewise with the pins
  swapped; zero writes the duty cycle first and then the pins.
\<close>

definition apply_motor_writes :: "real \<Rightarrow> real \<Rightarrow> pin_write list" where
  "apply_motor_writes mp val =
     (let v = clamp val (- mp) mp in
      if v > 0 then [In1 True, In2 False, PwmValue v]
      else if v < 0 then [In1 False, In2 True, PwmValue (- v)]
      else [PwmValue 0, In1 False, In2 False])"

definition apply_motor :: "real \<Rightarrow> motor \<Rightarrow> real \<Rightarrow> motor" where
  "apply_motor mp m val = foldl do_write m (apply_motor_writes mp val)"

text \<open>
  \<^verbatim>\<open>drive_arcade\<close>, first half: clamp both inputs, form the two sides and divide both by
  \<open>mag\<close>. \<open>arcade_unit\<close> is the pair before the calibration multipliers.
\<close>

definition arcade_mag :: "real \<Rightarrow> real \<Rightarrow> real" where
  "arcade_mag throttle steering =
     (let t = clamp throttle (-1) 1; s = clamp steering (-1) 1 in
      max (max \<bar>t + s\<bar> \<bar>t - s\<bar>) 1)"

definition arcade_unit :: "real \<Rightarrow> real \<Rightarrow> error + real \<times> real" where
  "arcade_unit throttle steering =
     (let t = clamp throttle (-1) 1;
          s = clamp steering (-1) 1;
          l = t + s;
          r = t - s;
          mag = max (max \<bar>l\<bar> \<bar>r\<bar>) 1
      in case py_div l mag of
           Inl e \<Rightarrow> Inl e
         | Inr l' \<Rightarrow> (case py_div r mag of
                        Inl e \<Rightarrow> Inl e
                      | Inr r' \<Rightarrow> Inr (l', r')))"

text \<open>Second half: the calibration multipliers; the result is the wheel command.\<close>

definition arcade_mix :: "real \<Rightarrow> real \<Rightarrow> real \<Rightarrow> real \<Rightarrow> error + real \<times> real" where
  "arcade_mix lm rm throttle steering =
     (case arcade_unit throttle steering of
        Inl e \<Rightarrow> Inl e
      | Inr (l, r) \<Rightarrow> Inr (l * lm, r * rm))"

definition drive_arcade :: "controller \<Rightarrow> real \<Rightarrow> real \<Rightarrow> error + controller" where
  "drive_arcade c throttle steering =
     (case arcade_mix (left_mult c) (right_mult c) throttle steering of
        Inl e \<Rightarrow> Inl e
      | Inr (l, r) \<Rightarrow>
          Inr (c\<lparr>left := apply_motor (max_pwm c) (left c) l,
                 right := apply_motor (max_pwm c) (right c) r\<rparr>))"

subsection \<open>Break-before-make\<close>

text \<open>
  The sequencing rule of the specification, as a check of a write sequence started in
  motor state \<open>m\<close>: every write that changes the level of a direction pin happens while
  the duty cycle is zero.
\<close>

fun break_before_make :: "motor \<Rightarrow> pin_write list \<Rightarrow> bool" where
  "break_before_make m [] = True"
| "break_before_make m (w # ws) =
     ((case w of
         PwmValue v \<Rightarrow> True
       | In1 b \<Rightarrow> b = in1 m \<or> pwm m = 0
       | In2 b \<Rightarrow> b = in2 m \<or> pwm m = 0)
      \<and> break_before_make (do_write m w) ws)"

definition motor_off :: motor where
  "motor_off = \<lparr>pwm = 0, in1 = False, in2 = False\<rparr>"

section \<open>autonomous\_vl53l0x.py\<close>

subsection \<open>Configuration\<close>

record AutoAvoidConfig =
  addr :: int
  fwd_speed :: real
  back_speed :: real
  turn_steer :: real
  clear_mm :: int
  near_mm :: int
  back_s :: real
  turn_s_min :: real
  turn_s_max :: real
  loop_hz :: real

text \<open>
  The constructor Python generates for the frozen dataclass: it stores its ten arguments
  and has no \<^verbatim>\<open>__post_init__\<close>, so it checks nothing.
\<close>

definition AutoAvoidConfig_init ::
  "int \<Rightarrow> real \<Rightarrow> real \<Rightarrow> real \<Rightarrow> int \<Rightarrow> int \<Rightarrow> real \<Rightarrow> real \<Rightarrow> real \<Rightarrow> real \<Rightarrow> AutoAvoidConfig" where
  "AutoAvoidConfig_init a fs bs ts cm nm bsec tmin tmax hz =
     \<lparr>addr = a, fwd_speed = fs, back_speed = bs, turn_steer = ts, clear_mm = cm,
      near_mm = nm, back_s = bsec, turn_s_min = tmin, turn_s_max = tmax, loop_hz = hz\<rparr>"

text \<open>The field defaults of the dataclass.\<close>

definition AutoAvoidConfig_default :: AutoAvoidConfig where
  "AutoAvoidConfig_default =
     AutoAvoidConfig_init 41 (22/100) (18/100) (55/100) 350 220 (40/100) (35/100) (70/100) 15"

text \<open>
  \<^verbatim>\<open>_env_float\<close> and \<^verbatim>\<open>_env_int\<close>: the environment is a parameter that gives, for a
  variable name, the number Python's \<^verbatim>\<open>float\<close> (or \<^verbatim>\<open>int(..., 0)\<close>) parses from its
  value, and \<open>None\<close> when the variable is unset or its value does not parse; both cases
  yield the default.
\<close>

definition env_float :: "(string \<Rightarrow> 'a option) \<Rightarrow> string \<Rightarrow> 'a \<Rightarrow> 'a" where
  "env_float env name dflt = (case env name of None \<Rightarrow> dflt | Some v \<Rightarrow> v)"

definition env_int :: "(string \<Rightarrow> int option) \<Rightarrow> string \<Rightarrow> int \<Rightarrow> int" where
  "env_int env name dflt = (case env name of None \<Rightarrow> dflt | Some v \<Rightarrow> v)"

text \<open>
  The two thresholds go through \<^verbatim>\<open>int(...)\<close>, outside the \<^verbatim>\<open>try\<close> of \<^verbatim>\<open>_env_float\<close>.
  \<^verbatim>\<open>float\<close> also parses \<^verbatim>\<open>inf\<close>, \<^verbatim>\<open>-inf\<close> and \<^verbatim>\<open>nan\<close>, and \<^verbatim>\<open>int\<close> raises
  \<^verbatim>\<open>OverflowError\<close> on an infinity and \<^verbatim>\<open>ValueError\<close> on a NaN; a finite float is
  truncated towards zero. So the values of the two threshold variables are floats with
  their non-finite members.
\<close>

datatype pyfloat = Finite real | PosInf | NegInf | NaN

fun int_of_float :: "pyfloat \<Rightarrow> error + int" where
  "int_of_float (Finite x) = Inr (if 0 \<le> x then \<lfloor>x\<rfloor> else \<lceil>x\<rceil>)"
| "int_of_float PosInf = Inl OverflowError"
| "int_of_float NegInf = Inl OverflowError"
| "int_of_float NaN = Inl ValueError"

text \<open>
  \<^verbatim>\<open>from_env\<close>: \<open>envi\<close> gives the integer variable, \<open>envt\<close> the two threshold variables
  and \<open>envf\<close> the other float variables, whose values are finite (floats are reals in
  this development). The arguments are evaluated in the order of the call, so an error of
  \<^verbatim>\<open>AUTO_CLEAR_MM\<close> comes before one of \<^verbatim>\<open>AUTO_NEAR_MM\<close>.
\<close>

definition from_env ::
  "(string \<Rightarrow> real option) \<Rightarrow> (string \<Rightarrow> pyfloat option) \<Rightarrow> (string \<Rightarrow> int option) \<Rightarrow>
     error + AutoAvoidConfig" where
  "from_env envf envt envi =
     (case int_of_float (env_float envt ''AUTO_CLEAR_MM'' (Finite 350)) of
        Inl e \<Rightarrow> Inl e
      | Inr cm \<Rightarrow>
          (case int_of_float (env_float envt ''AUTO_NEAR_MM'' (Finite 220)) of
             Inl e \<Rightarrow> Inl e
           | Inr nm \<Rightarrow>
               Inr (AutoAvoidConfig_init
                 (env_int envi ''VL53L0X_ADDR'' 41)
                 (env_float envf ''AUTO_FWD_SPEED'' (22/100))
                 (env_float envf ''AUTO_BACK_SPEED'' (18/100))
                 (env_float envf ''AUTO_TURN_STEER'' (55/100))
                 cm
                 nm
                 (env_float envf ''AUTO_BACK_S'' (40/100))
                 (env_float envf ''AUTO_TURN_S_MIN'' (35/100))
                 (env_float envf ''AUTO_TURN_S_MAX'' (70/100))
                 (env_float envf ''AUTO_LOOP_HZ'' 15))))"

text \<open>Whether a float is finite, and an environment given by a list of settings.\<close>

fun is_finite :: "pyfloat \<Rightarrow> bool" where
  "is_finite (Finite x) = True"
| "is_finite PosInf = False"
| "is_finite NegInf = False"
| "is_finite NaN = False"

definition truncated :: "real \<Rightarrow> int" where
  "truncated x = (if 0 \<le> x then \<lfloor>x\<rfloor> else \<lceil>x\<rceil>)"

definition no_env :: "string \<Rightarrow> 'a option" where
  "no_env name = None"

text \<open>
  The valid ranges of the specification (section 3 and section 6), for comparison with
  what the constructors accept: speeds and steering magnitude in \<open>[0, 1]\<close>, both
  thresholds positive with \<open>near_mm < clear_mm\<close>, positive hold times with
  \<open>turn_s_min \<le> turn_s_max\<close>, positive loop rate; multipliers positive and
  \<open>max_pwm\<close> in \<open>(0, 1]\<close>.
\<close>

definition config_valid :: "AutoAvoidConfig \<Rightarrow> bool" where
  "config_valid cfg \<longleftrightarrow>
     0 \<le> fwd_speed cfg \<and> fwd_speed cfg \<le> 1 \<and>
     0 \<le> back_speed cfg \<and> back_speed cfg \<le> 1 \<and>
     0 \<le> turn_steer cfg \<and> turn_steer cfg \<le> 1 \<and>
     0 < near_mm cfg \<and> near_mm cfg < clear_mm cfg \<and>
     0 < back_s cfg \<and> 0 < turn_s_min cfg \<and> turn_s_min cfg \<le> turn_s_max cfg \<and>
     0 < loop_hz cfg"

definition calibration_valid :: "controller \<Rightarrow> bool" where
  "calibration_valid c \<longleftrightarrow>
     0 < left_mult c \<and> 0 < right_mult c \<and> 0 < max_pwm c \<and> max_pwm c \<le> 1"

subsection \<open>The avoidance loop\<close>

text \<open>
  The effects of \<^verbatim>\<open>AutoAvoidRunner.run\<close>, in program order: the sensor read, the calls
  of the motor controller, the two optional callbacks, the two kinds of sleep (with the
  argument of the call) and the assignments to the local obstacle flag.
\<close>

datatype event =
    ReadMm
  | Stop
  | DriveArcade real real
  | Beat real real
  | Status "int option" string
  | Sleep real
  | BoundedSleep real
  | Obstacle bool

text \<open>Which of the optional callbacks \<^verbatim>\<open>heartbeat\<close> and \<^verbatim>\<open>on_status\<close> were passed.\<close>

record hooks =
  heartbeat :: bool
  on_status :: bool

record loop_state =
  last_mm :: "int option"
  obstacle :: bool

text \<open>
  What one iteration consumes: the result of \<^verbatim>\<open>read_mm()\<close> (\<open>None\<close> when it raises),
  the index \<^verbatim>\<open>random.choice\<close> draws and the number in \<open>[0, 1)\<close> that
  \<^verbatim>\<open>random.uniform\<close> draws. The two draws are used only by an iteration that turns.
\<close>

record tick_input =
  reading :: "int option"
  choice_draw :: nat
  uniform_draw :: real

text \<open>
  The library functions: \<^verbatim>\<open>random.choice(seq)\<close> is \<^verbatim>\<open>seq[randbelow(len(seq))]\<close> and
  \<^verbatim>\<open>random.uniform(a, b)\<close> is \<^verbatim>\<open>a + (b - a) * random()\<close>. The loop calls
  \<open>random_choice\<close> on the two-element list \<open>[-1, 1]\<close> only.
\<close>

definition random_choice :: "real list \<Rightarrow> nat \<Rightarrow> real" where
  "random_choice xs k = xs ! (k mod length xs)"

definition random_uniform :: "real \<Rightarrow> real \<Rightarrow> real \<Rightarrow> real" where
  "random_uniform a b u = a + (b - a) * u"

text \<open>\<^verbatim>\<open>period_s = 1.0 / max(1.0, cfg.loop_hz)\<close>; the divisor is at least 1.\<close>

definition period_s :: "AutoAvoidConfig \<Rightarrow> real" where
  "period_s cfg = 1 / max 1 (loop_hz cfg)"

definition beat :: "hooks \<Rightarrow> real \<Rightarrow> real \<Rightarrow> event list" where
  "beat hk throttle steering = (if heartbeat hk then [Beat throttle steering] else [])"

definition status :: "hooks \<Rightarrow> int option \<Rightarrow> string \<Rightarrow> event list" where
  "status hk mm state = (if on_status hk then [Status mm state] else [])"

text \<open>
  \<^verbatim>\<open>bounded_sleep(total_s)\<close> while the stop event stays clear and the clock advances by
  the sleeps only: \<open>remaining\<close> starts at \<open>max(0, total_s)\<close>, and each round sleeps
  \<open>min(0.05, remaining)\<close> and beats. The result is the list of the sleeps.
\<close>

function bounded_sleep_loop :: "real \<Rightarrow> real list" where
  "bounded_sleep_loop remaining =
     (if remaining \<le> 0 then []
      else min (5/100) remaining # bounded_sleep_loop (remaining - min (5/100) remaining))"
  by pat_completeness auto
termination
proof (relation "measure (\<lambda>r. nat \<lceil>r * 20\<rceil>)")
  show "wf (measure (\<lambda>r. nat \<lceil>r * 20\<rceil>))" by simp
next
  fix remaining :: real
  assume "\<not> remaining \<le> 0"
  then have pos: "0 < remaining" by simp
  show "(remaining - min (5/100) remaining, remaining) \<in> measure (\<lambda>r. nat \<lceil>r * 20\<rceil>)"
  proof (cases "remaining \<le> 5/100")
    case True
    then have "min (5/100) remaining = remaining" by simp
    moreover have "0 < \<lceil>remaining * 20\<rceil>" using pos by simp
    ultimately show ?thesis by simp
  next
    case False
    then have m: "min (5/100) remaining = 5/100" by simp
    have "(remaining - 5/100) * 20 = remaining * 20 - 1" by simp
    then have "\<lceil>(remaining - 5/100) * 20\<rceil> = \<lceil>remaining * 20\<rceil> - 1"
      by (metis ceiling_diff_one)
    moreover have "0 < \<lceil>remaining * 20\<rceil>" using pos by simp
    ultimately show ?thesis using m by simp
  qed
qed

declare bounded_sleep_loop.simps [simp del]

definition bounded_sleep :: "real \<Rightarrow> real list" where
  "bounded_sleep total_s = bounded_sleep_loop (max 0 total_s)"

text \<open>
  The obstacle handling of lines 168 to 189: stop, back up, turn, stop, each followed by
  its beat and its bounded sleep, then the flag is cleared.
\<close>

definition recovery :: "AutoAvoidConfig \<Rightarrow> hooks \<Rightarrow> nat \<Rightarrow> real \<Rightarrow> event list" where
  "recovery cfg hk k u =
     (let direction = random_choice [-1, 1] k;
          steer = direction * turn_steer cfg
      in [Stop] @ beat hk 0 0 @ [BoundedSleep (8/100)] @
         [DriveArcade (- back_speed cfg) 0] @ beat hk (- back_speed cfg) 0 @
         [BoundedSleep (back_s cfg)] @
         [DriveArcade 0 steer] @ beat hk 0 steer @
         [BoundedSleep (random_uniform (turn_s_min cfg) (turn_s_max cfg) u)] @
         [Stop] @ beat hk 0 0 @ [BoundedSleep (5/100)] @
         [Obstacle False])"

text \<open>One iteration of the \<^verbatim>\<open>while\<close> loop of \<^verbatim>\<open>run\<close>.\<close>

definition tick ::
  "AutoAvoidConfig \<Rightarrow> hooks \<Rightarrow> loop_state \<Rightarrow> tick_input \<Rightarrow> loop_state \<times> event list" where
  "tick cfg hk st inp =
     (case reading inp of
        None \<Rightarrow>
          (st, [ReadMm, Stop] @ status hk (last_mm st) ''sensor_error'' @
               [BoundedSleep (2/10)])
      | Some mm \<Rightarrow>
          (let report = status hk (Some mm) (if \<not> obstacle st then ''forward'' else ''avoid'');
               flagged = (if mm \<le> near_mm cfg then True else obstacle st);
               flag_set = (if mm \<le> near_mm cfg then [Obstacle True] else [])
           in if \<not> flagged \<and> mm \<ge> clear_mm cfg
              then (\<lparr>last_mm = Some mm, obstacle = flagged\<rparr>,
                    [ReadMm] @ report @ flag_set @
                    [DriveArcade (fwd_speed cfg) 0] @ beat hk (fwd_speed cfg) 0 @
                    [Sleep (period_s cfg)])
              else (\<lparr>last_mm = Some mm, obstacle = False\<rparr>,
                    [ReadMm] @ report @ flag_set @
                    recovery cfg hk (choice_draw inp) (uniform_draw inp))))"

text \<open>
  The loop runs one iteration per element of the input list; the end of the list is the
  moment the loop head finds the stop event set. \<open>run\<close> adds the stop and beat before
  and after the loop.
\<close>

fun run_loop ::
  "AutoAvoidConfig \<Rightarrow> hooks \<Rightarrow> loop_state \<Rightarrow> tick_input list \<Rightarrow> loop_state \<times> event list" where
  "run_loop cfg hk st [] = (st, [])"
| "run_loop cfg hk st (inp # inps) =
     (case tick cfg hk st inp of
        (st', evs) \<Rightarrow> (case run_loop cfg hk st' inps of
                        (st'', evs') \<Rightarrow> (st'', evs @ evs')))"

definition run :: "AutoAvoidConfig \<Rightarrow> hooks \<Rightarrow> tick_input list \<Rightarrow> event list" where
  "run cfg hk inps =
     [Stop] @ beat hk 0 0 @
     snd (run_loop cfg hk \<lparr>last_mm = None, obstacle = False\<rparr> inps) @
     [Stop] @ beat hk 0 0"

text \<open>
  The number of \<open>Forward \<rightarrow> ObstacleDetected\<close> transitions of a trace: the number of times
  the obstacle flag is set. Every iteration starts with the flag clear, since each
  obstacle handling ends by clearing it.
\<close>

definition transitions :: "event list \<Rightarrow> nat" where
  "transitions evs = length (filter (\<lambda>e. e = Obstacle True) evs)"

definition sensor_reads :: "event list \<Rightarrow> nat" where
  "sensor_reads evs = length (filter (\<lambda>e. e = ReadMm) evs)"

text \<open>An input with the given reading and the draws \<open>0\<close> and \<open>0\<close>.\<close>

definition measured :: "int \<Rightarrow> tick_input" where
  "measured mm = \<lparr>reading = Some mm, choice_draw = 0, uniform_draw = 0\<rparr>"

definition read_failed :: tick_input where
  "read_failed = \<lparr>reading = None, choice_draw = 0, uniform_draw = 0\<rparr>"

definition no_hooks :: hooks where
  "no_hooks = \<lparr>heartbeat = False, on_status = False\<rparr>"

definition all_hooks :: hooks where
  "all_hooks = \<lparr>heartbeat = True, on_status = True\<rparr>"

definition near_readings :: "AutoAvoidConfig \<Rightarrow> tick_input list \<Rightarrow> nat" where
  "near_readings cfg inps =
     length (filter (\<lambda>i. case reading i of None \<Rightarrow> False | Some mm \<Rightarrow> mm \<le> near_mm cfg) inps)"

section \<open>teleop\_web.py\<close>

text \<open>
  The module state: the command record guarded by \<^verbatim>\<open>_state_lock\<close>, the tuning constants
  read from the environment at import, the token of \<^verbatim>\<open>TELEOP_TOKEN\<close> (stripped, empty
  when unset) and the one motor controller. Times are the values of \<^verbatim>\<open>time.time()\<close>.
\<close>

record teleop =
  last_cmd_ts :: real
  last_throttle :: real
  last_steering :: real
  DEADMAN_S :: real
  MAX_PWM :: real
  LEFT_MULT :: real
  RIGHT_MULT :: real
  TELEOP_TOKEN :: string
  ctl :: controller

definition teleop_init :: "real \<Rightarrow> real \<Rightarrow> real \<Rightarrow> real \<Rightarrow> string \<Rightarrow> teleop" where
  "teleop_init deadman mp lm rm token =
     \<lparr>last_cmd_ts = 0, last_throttle = 0, last_steering = 0,
      DEADMAN_S = deadman, MAX_PWM = mp, LEFT_MULT = lm, RIGHT_MULT = rm,
      TELEOP_TOKEN = token,
      ctl = MotorController_init lm rm mp\<rparr>"

text \<open>
  A request: the stripped token of the query string and of the header (empty when
  absent) and the numbers of the JSON body by key.
\<close>

record request =
  arg_token :: string
  header_token :: string
  json :: "string \<rightharpoonup> real"

datatype response = Unauthorized | OkTrue

definition check_token :: "teleop \<Rightarrow> request \<Rightarrow> bool" where
  "check_token st req =
     (if TELEOP_TOKEN st = [] then True
      else (let provided = (if arg_token req = [] then header_token req else arg_token req)
            in provided = TELEOP_TOKEN st))"

definition json_get :: "request \<Rightarrow> string \<Rightarrow> real \<Rightarrow> real" where
  "json_get req key dflt = (case json req key of None \<Rightarrow> dflt | Some v \<Rightarrow> v)"

text \<open>
  \<^verbatim>\<open>api_drive\<close>: the two floats of the body go into the command record as they are,
  with the time of the call; then the controller drives with them.
\<close>

definition api_drive :: "teleop \<Rightarrow> real \<Rightarrow> request \<Rightarrow> error + teleop \<times> response" where
  "api_drive st now req =
     (if \<not> check_token st req then Inr (st, Unauthorized)
      else (let throttle = json_get req ''throttle'' 0;
                steering = json_get req ''steering'' 0;
                st1 = st\<lparr>last_cmd_ts := now, last_throttle := throttle,
                         last_steering := steering\<rparr>
            in case drive_arcade (ctl st1) throttle steering of
                 Inl e \<Rightarrow> Inl e
               | Inr c \<Rightarrow> Inr (st1\<lparr>ctl := c\<rparr>, OkTrue)))"

definition api_stop :: "teleop \<Rightarrow> real \<Rightarrow> request \<Rightarrow> teleop \<times> response" where
  "api_stop st now req =
     (if \<not> check_token st req then (st, Unauthorized)
      else (st\<lparr>last_cmd_ts := now, last_throttle := 0, last_steering := 0,
               ctl := stop (ctl st)\<rparr>, OkTrue))"

text \<open>
  \<^verbatim>\<open>api_status\<close>: the age is \<open>None\<close> while the timestamp is zero. The fields of the
  report carry the prefix \<open>rep_\<close> before the key of the JSON answer.
\<close>

record status_report =
  rep_last_cmd_age_s :: "real option"
  rep_deadman_s :: real
  rep_throttle :: real
  rep_steering :: real
  rep_max_pwm :: real
  rep_left_mult :: real
  rep_right_mult :: real

definition api_status :: "teleop \<Rightarrow> real \<Rightarrow> status_report" where
  "api_status st now =
     \<lparr>rep_last_cmd_age_s = (if last_cmd_ts st \<noteq> 0 then Some (now - last_cmd_ts st) else None),
      rep_deadman_s = DEADMAN_S st,
      rep_throttle = last_throttle st,
      rep_steering = last_steering st,
      rep_max_pwm = MAX_PWM st,
      rep_left_mult = LEFT_MULT st,
      rep_right_mult = RIGHT_MULT st\<rparr>"

text \<open>
  One round of \<^verbatim>\<open>_deadman_loop\<close> after its sleep, at time \<open>now\<close>: a zero timestamp
  skips the round; otherwise the controller is stopped when the record is older than
  \<^verbatim>\<open>DEADMAN_S\<close>. The flag tells whether \<^verbatim>\<open>controller.stop()\<close> was called.
\<close>

definition deadman_round :: "teleop \<Rightarrow> real \<Rightarrow> teleop \<times> bool" where
  "deadman_round st now =
     (let ts = last_cmd_ts st
      in if ts = 0 then (st, False)
         else if now - ts > DEADMAN_S st then (st\<lparr>ctl := stop (ctl st)\<rparr>, True)
         else (st, False))"

text \<open>
  An execution of the server: requests and watchdog rounds, each taken as one step at
  the time its \<^verbatim>\<open>time.time()\<close> call returns, in the order they happen. The result holds
  the times at which the watchdog called \<^verbatim>\<open>controller.stop()\<close>.
\<close>

datatype action = ApiDrive request | ApiStop request | Watchdog

fun teleop_run :: "teleop \<Rightarrow> (real \<times> action) list \<Rightarrow> error + teleop \<times> real list" where
  "teleop_run st [] = Inr (st, [])"
| "teleop_run st ((now, ApiDrive req) # rest) =
     (case api_drive st now req of
        Inl e \<Rightarrow> Inl e
      | Inr (st', _) \<Rightarrow> teleop_run st' rest)"
| "teleop_run st ((now, ApiStop req) # rest) =
     teleop_run (fst (api_stop st now req)) rest"
| "teleop_run st ((now, Watchdog) # rest) =
     (case deadman_round st now of
        (st', stopped) \<Rightarrow>
          (case teleop_run st' rest of
             Inl e \<Rightarrow> Inl e
           | Inr (st'', stops) \<Rightarrow> Inr (st'', (if stopped then [now] else []) @ stops)))"

text \<open>A drive request without token that carries the given throttle and steering.\<close>

definition drive_request :: "real \<Rightarrow> real \<Rightarrow> request" where
  "drive_request t s =
     \<lparr>arg_token = [], header_token = [],
      json = [''throttle'' \<mapsto> t, ''steering'' \<mapsto> s]\<rparr>"

text \<open>The module state with the defaults of the source and no token.\<close>

definition teleop_default :: teleop where
  "teleop_default = teleop_init (35/100) (6/10) 1 (87/100) []"

text \<open>Watchdog rounds only, at the given times, and the stop times of an execution.\<close>

definition watchdog_rounds :: "real list \<Rightarrow> (real \<times> action) list" where
  "watchdog_rounds ts = map (\<lambda>t. (t, Watchdog)) ts"

definition watchdog_stops :: "teleop \<Rightarrow> (real \<times> action) list \<Rightarrow> real list option" where
  "watchdog_stops st steps =
     (case teleop_run st steps of Inl e \<Rightarrow> None | Inr (st', stops) \<Rightarrow> Some stops)"

text \<open>
  An execution with the default threshold of 0.35 s: drive commands at 1.00 s and
  1.36 s, and a watchdog round every 0.05 s from 1.04 s to 1.44 s.
\<close>

definition gap_timeline :: "(real \<times> action) list" where
  "gap_timeline =
     [(100/100, ApiDrive (drive_request (1/2) 0)),
      (104/100, Watchdog), (109/100, Watchdog), (114/100, Watchdog), (119/100, Watchdog),
      (124/100, Watchdog), (129/100, Watchdog), (134/100, Watchdog),
      (136/100, ApiDrive (drive_request (1/2) 0)),
      (139/100, Watchdog), (144/100, Watchdog)]"

section \<open>Properties of the motor controller\<close>

lemma clamp_bounds: "lo \<le> hi \<Longrightarrow> lo \<le> clamp v lo hi \<and> clamp v lo hi \<le> hi"
  by (simp add: clamp_def)

lemma clamp_unit_abs: "\<bar>clamp v (-1) 1\<bar> \<le> 1"
  by (auto simp: clamp_def)

lemma arcade_mag_ge_1: "1 \<le> arcade_mag throttle steering"
  by (simp add: arcade_mag_def Let_def)

lemma arcade_unit_eq:
  "arcade_unit throttle steering =
     Inr ((clamp throttle (-1) 1 + clamp steering (-1) 1) / arcade_mag throttle steering,
          (clamp throttle (-1) 1 - clamp steering (-1) 1) / arcade_mag throttle steering)"
  using arcade_mag_ge_1[of throttle steering]
  by (simp add: arcade_unit_def arcade_mag_def Let_def py_div_def)

lemma drive_arcade_total: "\<exists>c'. drive_arcade c throttle steering = Inr c'"
  by (simp add: drive_arcade_def arcade_mix_def arcade_unit_eq)

text \<open>
  Claim C2, as stated, fails: with \<open>max_pwm = 1\<close>, after an apply of \<open>1/2\<close> (forward,
  duty cycle \<open>1/2\<close>) the apply of \<open>-1/2\<close> writes \<open>in1\<close> off as its first write, while the
  duty cycle is still \<open>1/2\<close>.
\<close>

theorem reversal_not_break_before_make:
  "\<not> break_before_make (apply_motor 1 motor_off (1/2)) (apply_motor_writes 1 (- (1/2)))"
  by (simp add: apply_motor_def apply_motor_writes_def clamp_def motor_off_def)

text \<open>
  Claim C2, amended: \<^verbatim>\<open>_apply_motor\<close> keeps no memory of the previous command. For a
  nonzero clamped value it writes both direction pins first and the duty cycle last;
  only for the value zero does it write the duty cycle (zero) first. Hence an apply that
  follows a previous apply satisfies break-before-make exactly when it is not a direct
  reversal of sign of the clamped values.
\<close>

theorem apply_motor_break_before_make_iff:
  "(break_before_make (apply_motor mp m prev) (apply_motor_writes mp new) \<longleftrightarrow>
      \<not> (0 < clamp prev (- mp) mp \<and> clamp new (- mp) mp < 0 \<or>
         clamp prev (- mp) mp < 0 \<and> 0 < clamp new (- mp) mp)) \<and>
   apply_motor_writes mp new =
     (if 0 < clamp new (- mp) mp
        then [In1 True, In2 False, PwmValue (clamp new (- mp) mp)]
      else if clamp new (- mp) mp < 0
        then [In1 False, In2 True, PwmValue (- clamp new (- mp) mp)]
      else [PwmValue 0, In1 False, In2 False])"
  by (auto simp add: apply_motor_def apply_motor_writes_def Let_def)

theorem apply_motor_break_before_make_iff_witness:
  "break_before_make (apply_motor 1 motor_off 0) (apply_motor_writes 1 (- (1/2))) \<and>
   break_before_make (apply_motor 1 motor_off (1/2)) (apply_motor_writes 1 0) \<and>
   break_before_make (apply_motor 1 motor_off (1/2)) (apply_motor_writes 1 (1/4)) \<and>
   apply_motor_writes 1 (- (1/2)) = [In1 False, In2 True, PwmValue (1/2)]"
  using apply_motor_break_before_make_iff [of 1 motor_off 0 "- (1/2)"]
        apply_motor_break_before_make_iff [of 1 motor_off "1/2" 0]
        apply_motor_break_before_make_iff [of 1 motor_off "1/2" "1/4"]
  by (simp add: clamp_def apply_motor_def apply_motor_writes_def motor_off_def)

text \<open>
  Claim C5: for a calibration with \<open>0 \<le> max_pwm\<close> and every input value,
  \<^verbatim>\<open>_apply_motor\<close> works on the value clamped to \<open>[-max_pwm, max_pwm]\<close>: a value inside
  the range is kept, a value outside is replaced by the nearer bound. The duty cycle it
  writes, and leaves behind, is the magnitude of the clamped value, the direction pins
  carry its sign, and so the duty cycle lies in \<open>[0, max_pwm]\<close>. The same bound holds for
  both sides after \<^verbatim>\<open>drive_arcade\<close> with any throttle and steering.
\<close>

theorem apply_motor_magnitude_bounded:
  "0 \<le> mp \<Longrightarrow>
     - mp \<le> clamp val (- mp) mp \<and> clamp val (- mp) mp \<le> mp \<and>
     (- mp \<le> val \<and> val \<le> mp \<longrightarrow> clamp val (- mp) mp = val) \<and>
     (mp < val \<longrightarrow> clamp val (- mp) mp = mp) \<and>
     (val < - mp \<longrightarrow> clamp val (- mp) mp = - mp) \<and>
     (\<exists>v. PwmValue v \<in> set (apply_motor_writes mp val)) \<and>
     (\<forall>v. PwmValue v \<in> set (apply_motor_writes mp val) \<longrightarrow>
        v = \<bar>clamp val (- mp) mp\<bar> \<and> 0 \<le> v \<and> v \<le> mp) \<and>
     pwm (apply_motor mp m val) = \<bar>clamp val (- mp) mp\<bar> \<and>
     in1 (apply_motor mp m val) = (0 < clamp val (- mp) mp) \<and>
     in2 (apply_motor mp m val) = (clamp val (- mp) mp < 0) \<and>
     0 \<le> pwm (apply_motor mp m val) \<and> pwm (apply_motor mp m val) \<le> mp \<and>
     (max_pwm c = mp \<longrightarrow>
        (\<exists>c'. drive_arcade c throttle steering = Inr c' \<and>
           0 \<le> pwm (left c') \<and> pwm (left c') \<le> mp \<and>
           0 \<le> pwm (right c') \<and> pwm (right c') \<le> mp))"
proof -
  assume mp: "0 \<le> mp"
  have one: "pwm (apply_motor mp m' x) = \<bar>clamp x (- mp) mp\<bar> \<and>
      \<bar>clamp x (- mp) mp\<bar> \<le> mp" for m' x
    using mp by (auto simp add: apply_motor_def apply_motor_writes_def Let_def clamp_def)
  have drive: "\<exists>c'. drive_arcade c throttle steering = Inr c' \<and>
           0 \<le> pwm (left c') \<and> pwm (left c') \<le> mp \<and>
           0 \<le> pwm (right c') \<and> pwm (right c') \<le> mp" if "max_pwm c = mp"
  proof -
    obtain l r where lr: "arcade_mix (left_mult c) (right_mult c) throttle steering = Inr (l, r)"
      by (auto simp add: arcade_mix_def arcade_unit_eq)
    have "drive_arcade c throttle steering =
        Inr (c\<lparr>left := apply_motor mp (left c) l, right := apply_motor mp (right c) r\<rparr>)"
      using lr that by (simp add: drive_arcade_def)
    moreover have "0 \<le> pwm (apply_motor mp (left c) l) \<and> pwm (apply_motor mp (left c) l) \<le> mp"
      using one [of "left c" l] by simp
    moreover have "0 \<le> pwm (apply_motor mp (right c) r) \<and> pwm (apply_motor mp (right c) r) \<le> mp"
      using one [of "right c" r] by simp
    ultimately show ?thesis by simp
  qed
  have writes: "(\<exists>v. PwmValue v \<in> set (apply_motor_writes mp val)) \<and>
     (\<forall>v. PwmValue v \<in> set (apply_motor_writes mp val) \<longrightarrow>
        v = \<bar>clamp val (- mp) mp\<bar> \<and> 0 \<le> v \<and> v \<le> mp)"
    using mp by (auto simp add: apply_motor_writes_def Let_def clamp_def)
  have pins: "in1 (apply_motor mp m val) = (0 < clamp val (- mp) mp) \<and>
     in2 (apply_motor mp m val) = (clamp val (- mp) mp < 0)"
    by (auto simp add: apply_motor_def apply_motor_writes_def Let_def)
  have cl: "- mp \<le> clamp val (- mp) mp \<and> clamp val (- mp) mp \<le> mp \<and>
     (- mp \<le> val \<and> val \<le> mp \<longrightarrow> clamp val (- mp) mp = val) \<and>
     (mp < val \<longrightarrow> clamp val (- mp) mp = mp) \<and>
     (val < - mp \<longrightarrow> clamp val (- mp) mp = - mp)"
    using mp by (auto simp add: clamp_def)
  show ?thesis
    using cl writes pins one [of m val] drive by simp
qed

text \<open>
  With \<open>max_pwm = 0.6\<close>: the values 0.3 and \<open>-0.3\<close> inside the range are written with
  their own magnitude, 25 and \<open>-25\<close> are cut to 0.6, zero writes zero, and a drive with
  throttle 5 leaves both sides at 0.6.
\<close>

theorem apply_motor_magnitude_bounded_witness:
  "(0::real) \<le> 6/10 \<and>
   apply_motor_writes (6/10) (3/10) = [In1 True, In2 False, PwmValue (3/10)] \<and>
   apply_motor_writes (6/10) (- (3/10)) = [In1 False, In2 True, PwmValue (3/10)] \<and>
   apply_motor_writes (6/10) 25 = [In1 True, In2 False, PwmValue (6/10)] \<and>
   apply_motor_writes (6/10) (- 25) = [In1 False, In2 True, PwmValue (6/10)] \<and>
   apply_motor_writes (6/10) 0 = [PwmValue 0, In1 False, In2 False] \<and>
   pwm (apply_motor (6/10) motor_off (3/10)) = 3/10 \<and>
   pwm (apply_motor (6/10) motor_off 25) = 6/10 \<and>
   drive_arcade (MotorController_init 1 (87/100) (6/10)) 5 0 =
     Inr ((MotorController_init 1 (87/100) (6/10))
            \<lparr>left := \<lparr>pwm = 6/10, in1 = True, in2 = False\<rparr>,
             right := \<lparr>pwm = 6/10, in1 = True, in2 = False\<rparr>\<rparr>)"
  using apply_motor_magnitude_bounded
          [of "6/10" "3/10" motor_off "MotorController_init 1 (87/100) (6/10)" 5 0]
        apply_motor_magnitude_bounded
          [of "6/10" 25 motor_off "MotorController_init 1 (87/100) (6/10)" 5 0]
  by (simp add: apply_motor_def apply_motor_writes_def clamp_def motor_off_def
      MotorController_init_def stop_def stop_writes_def enable_def drive_arcade_def
      arcade_mix_def arcade_unit_def py_div_def Let_def)

text \<open>
  Claim C6: for all inputs the mixing clamps throttle and steering to \<open>[-1, 1]\<close>, forms
  \<open>l = t + s\<close> and \<open>r = t - s\<close>, and divides both by \<open>mag = max(|l|, |r|, 1)\<close>. The divisor
  is at least 1, so the division never raises and the mixing always returns a result.
  Before the calibration multipliers both sides have magnitude at most 1, neither side
  is larger in magnitude than before the division, both sides keep their ratio, and they
  are unchanged when \<open>mag = 1\<close>. The wheel command is the pair multiplied by the
  calibration multipliers.
\<close>

theorem arcade_mix_correct:
  "(let t = clamp throttle (-1) 1;
        s = clamp steering (-1) 1;
        mag = max (max \<bar>t + s\<bar> \<bar>t - s\<bar>) 1;
        l = (t + s) / mag;
        r = (t - s) / mag
    in - 1 \<le> t \<and> t \<le> 1 \<and> - 1 \<le> s \<and> s \<le> 1 \<and> 1 \<le> mag \<and>
       arcade_unit throttle steering = Inr (l, r) \<and>
       max \<bar>l\<bar> \<bar>r\<bar> \<le> 1 \<and>
       \<bar>l\<bar> \<le> \<bar>t + s\<bar> \<and> \<bar>r\<bar> \<le> \<bar>t - s\<bar> \<and>
       (l + r) * s = (l - r) * t \<and>
       (mag = 1 \<longrightarrow> l = t + s \<and> r = t - s \<and> l + r = 2 * t \<and> l - r = 2 * s) \<and>
       arcade_mix lm rm throttle steering = Inr (l * lm, r * rm))"
proof -
  define t where "t = clamp throttle (-1) 1"
  define s where "s = clamp steering (-1) 1"
  define mag where "mag = max (max \<bar>t + s\<bar> \<bar>t - s\<bar>) 1"
  have tb: "- 1 \<le> t \<and> t \<le> 1" and sb: "- 1 \<le> s \<and> s \<le> 1"
    unfolding t_def s_def by (auto simp: clamp_def)
  have mag1: "1 \<le> mag" and magl: "\<bar>t + s\<bar> \<le> mag" and magr: "\<bar>t - s\<bar> \<le> mag"
    unfolding mag_def by auto
  have mageq: "arcade_mag throttle steering = mag"
    by (simp add: arcade_mag_def mag_def t_def s_def Let_def)
  have unit: "arcade_unit throttle steering = Inr ((t + s) / mag, (t - s) / mag)"
    using arcade_unit_eq[of throttle steering] by (simp add: mageq t_def s_def)
  have mix: "arcade_mix lm rm throttle steering = Inr ((t + s) / mag * lm, (t - s) / mag * rm)"
    by (simp add: arcade_mix_def unit)
  have l1: "\<bar>(t + s) / mag\<bar> \<le> 1" using mag1 magl by (simp add: field_simps)
  have r1: "\<bar>(t - s) / mag\<bar> \<le> 1" using mag1 magr by (simp add: field_simps)
  have la: "\<bar>(t + s) / mag\<bar> \<le> \<bar>t + s\<bar>"
  proof -
    have "\<bar>t + s\<bar> / mag \<le> \<bar>t + s\<bar> / 1" using mag1 by (intro divide_left_mono) auto
    then show ?thesis using mag1 by simp
  qed
  have ra: "\<bar>(t - s) / mag\<bar> \<le> \<bar>t - s\<bar>"
  proof -
    have "\<bar>t - s\<bar> / mag \<le> \<bar>t - s\<bar> / 1" using mag1 by (intro divide_left_mono) auto
    then show ?thesis using mag1 by simp
  qed
  have ratio: "((t + s) / mag + (t - s) / mag) * s = ((t + s) / mag - (t - s) / mag) * t"
    using mag1 by (simp add: field_simps)
  show ?thesis
    unfolding Let_def t_def[symmetric] s_def[symmetric] mag_def[symmetric]
    using tb sb mag1 unit mix l1 r1 la ra ratio by simp
qed

text \<open>
  Two inputs: \<open>(3/10, -2/10)\<close>, where \<open>mag = 1\<close> and the sides are unchanged, and
  \<open>(5, 1/2)\<close>, where the throttle is clamped to 1 and \<open>mag = 3/2\<close>.
\<close>

theorem arcade_mix_correct_witness:
  "max (max \<bar>clamp (3/10) (-1) 1 + clamp (- (2/10)) (-1) 1\<bar>
            \<bar>clamp (3/10) (-1) 1 - clamp (- (2/10)) (-1) 1\<bar>) 1 = (1::real) \<and>
   arcade_unit (3/10) (- (2/10)) = Inr (1/10, 1/2) \<and>
   arcade_mix 1 (87/100) (3/10) (- (2/10)) = Inr (1/10, 87/200) \<and>
   arcade_unit 5 (1/2) = Inr (1, 1/3)"
  using arcade_mix_correct [of "3/10" "- (2/10)" 1 "87/100"]
        arcade_mix_correct [of 5 "1/2" 1 1]
  by (simp add: clamp_def Let_def)

section \<open>Properties of the avoidance loop\<close>

subsection \<open>Bounded sleep and the random draws\<close>

lemma bounded_sleep_loop_sum: "sum_list (bounded_sleep_loop r) = max 0 r"
proof (induction r rule: bounded_sleep_loop.induct)
  case (1 remaining)
  show ?case
  proof (cases "remaining \<le> 0")
    case True
    then show ?thesis by (simp add: bounded_sleep_loop.simps [of remaining])
  next
    case False
    with 1 have "sum_list (bounded_sleep_loop (remaining - min (5/100) remaining)) =
        max 0 (remaining - min (5/100) remaining)" by simp
    with False show ?thesis
      by (simp add: bounded_sleep_loop.simps [of remaining] min_def max_def)
  qed
qed

lemma bounded_sleep_total: "sum_list (bounded_sleep d) = max 0 d"
  by (simp add: bounded_sleep_def bounded_sleep_loop_sum)

lemma random_choice_direction:
  "random_choice [-1, 1] k = -1 \<or> random_choice [-1, 1] k = 1"
proof -
  have "k mod Suc (Suc 0) = 0 \<or> k mod Suc (Suc 0) = Suc 0" by arith
  then show ?thesis by (auto simp add: random_choice_def)
qed

lemma random_uniform_range:
  assumes "a \<le> b" and "0 \<le> u" and "u \<le> 1"
  shows "a \<le> random_uniform a b u \<and> random_uniform a b u \<le> b"
proof -
  have "0 \<le> (b - a) * u" using assms by simp
  moreover have "(b - a) * u \<le> (b - a) * 1" using assms by (intro mult_left_mono) auto
  ultimately show ?thesis by (simp add: random_uniform_def)
qed

subsection \<open>Counting in traces\<close>

lemma transitions_Nil: "transitions [] = 0"
  by (simp add: transitions_def)

lemma transitions_Cons:
  "transitions (e # es) = (if e = Obstacle True then 1 else 0) + transitions es"
  by (simp add: transitions_def)

lemma transitions_append: "transitions (xs @ ys) = transitions xs + transitions ys"
  by (simp add: transitions_def)

lemma transitions_beat: "transitions (beat hk t s) = 0"
  by (simp add: transitions_def beat_def)

lemma transitions_status: "transitions (status hk mm s) = 0"
  by (simp add: transitions_def status_def)

lemma transitions_recovery: "transitions (recovery cfg hk k u) = 0"
  by (simp add: recovery_def Let_def transitions_append transitions_Cons transitions_Nil
        transitions_beat)

lemma transitions_tick:
  "transitions (snd (tick cfg hk st inp)) =
     (case reading inp of None \<Rightarrow> 0 | Some mm \<Rightarrow> if mm \<le> near_mm cfg then 1 else 0)"
  by (simp add: tick_def Let_def transitions_append transitions_Cons transitions_Nil
        transitions_beat transitions_status transitions_recovery split: option.splits)

lemma sensor_reads_recovery: "sensor_reads (recovery cfg hk k u) = 0"
  by (simp add: recovery_def Let_def sensor_reads_def beat_def)

lemma run_loop_Cons:
  "run_loop cfg hk st (inp # inps) =
     (fst (run_loop cfg hk (fst (tick cfg hk st inp)) inps),
      snd (tick cfg hk st inp) @ snd (run_loop cfg hk (fst (tick cfg hk st inp)) inps))"
  by (simp split: prod.splits)

lemma transitions_run_loop:
  "transitions (snd (run_loop cfg hk st inps)) = near_readings cfg inps"
proof (induction inps arbitrary: st)
  case Nil
  show ?case by (simp add: transitions_def near_readings_def)
next
  case (Cons inp inps)
  have "transitions (snd (run_loop cfg hk st (inp # inps))) =
      transitions (snd (tick cfg hk st inp)) + near_readings cfg inps"
    by (simp only: run_loop_Cons snd_conv transitions_append Cons.IH)
  then show ?case
    by (simp add: transitions_tick near_readings_def split: option.splits)
qed

lemma transitions_run: "transitions (run cfg hk inps) = near_readings cfg inps"
  by (simp add: run_def transitions_append transitions_Cons transitions_Nil transitions_beat
        transitions_run_loop)

lemma tick_recovery_events:
  "recovery cfg hk k u =
     [Stop] @ beat hk 0 0 @ [BoundedSleep (8/100)] @
     [DriveArcade (- back_speed cfg) 0] @ beat hk (- back_speed cfg) 0 @
     [BoundedSleep (back_s cfg)] @
     [DriveArcade 0 (random_choice [-1, 1] k * turn_steer cfg)] @
     beat hk 0 (random_choice [-1, 1] k * turn_steer cfg) @
     [BoundedSleep (random_uniform (turn_s_min cfg) (turn_s_max cfg) u)] @
     [Stop] @ beat hk 0 0 @ [BoundedSleep (5/100)] @ [Obstacle False]"
  by (simp add: recovery_def Let_def)

subsection \<open>Readings between the thresholds\<close>

text \<open>
  Claim C1, as stated, fails: with the default thresholds 220 and 350, the obstacle flag
  clear and a reading of 300, the iteration commands the motors four times (stop,
  reverse, turn, stop): it runs the whole obstacle handling.
\<close>

theorem reading_between_thresholds_maneuvers:
  "snd (tick AutoAvoidConfig_default all_hooks \<lparr>last_mm = None, obstacle = False\<rparr>
         \<lparr>reading = Some 300, choice_draw = 1, uniform_draw = 1\<rparr>) =
     [ReadMm, Status (Some 300) ''forward'',
      Stop, Beat 0 0, BoundedSleep (8/100),
      DriveArcade (- (18/100)) 0, Beat (- (18/100)) 0, BoundedSleep (40/100),
      DriveArcade 0 (55/100), Beat 0 (55/100), BoundedSleep (70/100),
      Stop, Beat 0 0, BoundedSleep (5/100), Obstacle False]"
  by (simp add: tick_def recovery_def Let_def AutoAvoidConfig_default_def
      AutoAvoidConfig_init_def all_hooks_def beat_def status_def random_choice_def
      random_uniform_def)

text \<open>
  Claim C1, amended: only a reading of at least \<open>clear_mm\<close> continues forward. With the
  obstacle flag clear and a reading strictly between \<open>near_mm\<close> and \<open>clear_mm\<close>, the
  iteration reports the state \<open>forward\<close>, leaves the flag clear, and falls through to the
  obstacle handling: stop, back up, turn, stop, as for a near reading. The next iteration
  reads the sensor again.
\<close>

theorem tick_between_thresholds_recovers:
  "\<not> obstacle st \<Longrightarrow> reading inp = Some mm \<Longrightarrow> near_mm cfg < mm \<Longrightarrow> mm < clear_mm cfg \<Longrightarrow>
   tick cfg hk st inp =
     (\<lparr>last_mm = Some mm, obstacle = False\<rparr>,
      [ReadMm] @ status hk (Some mm) ''forward'' @
      [Stop] @ beat hk 0 0 @ [BoundedSleep (8/100)] @
      [DriveArcade (- back_speed cfg) 0] @ beat hk (- back_speed cfg) 0 @
      [BoundedSleep (back_s cfg)] @
      [DriveArcade 0 (random_choice [-1, 1] (choice_draw inp) * turn_steer cfg)] @
      beat hk 0 (random_choice [-1, 1] (choice_draw inp) * turn_steer cfg) @
      [BoundedSleep (random_uniform (turn_s_min cfg) (turn_s_max cfg) (uniform_draw inp))] @
      [Stop] @ beat hk 0 0 @ [BoundedSleep (5/100)] @ [Obstacle False])"
  by (simp add: tick_def recovery_def Let_def)

theorem tick_between_thresholds_recovers_witness:
  "tick AutoAvoidConfig_default no_hooks \<lparr>last_mm = Some 400, obstacle = False\<rparr> (measured 300) =
     (\<lparr>last_mm = Some 300, obstacle = False\<rparr>,
      [ReadMm, Stop, BoundedSleep (8/100), DriveArcade (- (18/100)) 0, BoundedSleep (40/100),
       DriveArcade 0 (- (55/100)), BoundedSleep (35/100), Stop, BoundedSleep (5/100),
       Obstacle False])"
  using tick_between_thresholds_recovers
      [of "\<lparr>last_mm = Some 400, obstacle = False\<rparr>" "measured 300" 300
          AutoAvoidConfig_default no_hooks]
  by (simp add: measured_def AutoAvoidConfig_default_def AutoAvoidConfig_init_def no_hooks_def
      beat_def status_def random_choice_def random_uniform_def)

subsection \<open>Readings at or below the near threshold\<close>

text \<open>
  Claim C3, as stated, fails in its last part: on the readings 400, 400, 150, 150, 150
  with \<open>clear_mm = 350\<close> and \<open>near_mm = 220\<close> the obstacle flag is set three times, once
  per reading of 150, since each obstacle handling ends by clearing the flag and the next
  iteration reads the sensor again.
\<close>

theorem three_near_readings_three_transitions:
  "transitions (run AutoAvoidConfig_default no_hooks (map measured [400, 400, 150, 150, 150])) = 3 \<and>
   transitions (run AutoAvoidConfig_default no_hooks (map measured [400, 400, 150, 150, 150])) \<noteq> 1 \<and>
   transitions (run AutoAvoidConfig_default no_hooks (map measured [400, 400])) = 0 \<and>
   transitions (run AutoAvoidConfig_default no_hooks (map measured [400, 400, 150])) = 1"
  by (simp add: run_def tick_def recovery_def Let_def measured_def AutoAvoidConfig_default_def
      AutoAvoidConfig_init_def no_hooks_def beat_def status_def transitions_def)

text \<open>
  Claim C3, amended: an iteration whose reading is at most \<open>near_mm\<close> sets the obstacle
  flag and runs the whole obstacle handling in order: stop and a bounded sleep of 80 ms;
  drive \<open>(-back_speed, 0)\<close> and a bounded sleep of \<open>back_s\<close>; drive \<open>(0, \<plusminus>turn_steer)\<close>
  with the sign drawn from \<open>{-1, 1}\<close> and a bounded sleep of a time drawn between
  \<open>turn_s_min\<close> and \<open>turn_s_max\<close>; stop and a bounded sleep of 50 ms. It reads the sensor
  once, at its start, then clears the flag. A bounded sleep that is not cancelled sleeps
  for its argument in total (zero for a negative one). Every such iteration is one
  \<open>Forward \<rightarrow> ObstacleDetected\<close> transition, so a run makes as many transitions as it has
  readings at or below \<open>near_mm\<close>.
\<close>

theorem near_reading_runs_recovery:
  "(reading inp = Some mm \<and> mm \<le> near_mm cfg \<longrightarrow>
      tick cfg hk st inp =
        (\<lparr>last_mm = Some mm, obstacle = False\<rparr>,
         [ReadMm] @ status hk (Some mm) (if \<not> obstacle st then ''forward'' else ''avoid'') @
         [Obstacle True] @
         [Stop] @ beat hk 0 0 @ [BoundedSleep (8/100)] @
         [DriveArcade (- back_speed cfg) 0] @ beat hk (- back_speed cfg) 0 @
         [BoundedSleep (back_s cfg)] @
         [DriveArcade 0 (random_choice [-1, 1] (choice_draw inp) * turn_steer cfg)] @
         beat hk 0 (random_choice [-1, 1] (choice_draw inp) * turn_steer cfg) @
         [BoundedSleep (random_uniform (turn_s_min cfg) (turn_s_max cfg) (uniform_draw inp))] @
         [Stop] @ beat hk 0 0 @ [BoundedSleep (5/100)] @ [Obstacle False]) \<and>
      sensor_reads (snd (tick cfg hk st inp)) = 1 \<and>
      transitions (snd (tick cfg hk st inp)) = 1) \<and>
   (random_choice [-1, 1] k = -1 \<or> random_choice [-1, 1] k = 1) \<and>
   (turn_s_min cfg \<le> turn_s_max cfg \<and> 0 \<le> u \<and> u \<le> 1 \<longrightarrow>
      turn_s_min cfg \<le> random_uniform (turn_s_min cfg) (turn_s_max cfg) u \<and>
      random_uniform (turn_s_min cfg) (turn_s_max cfg) u \<le> turn_s_max cfg) \<and>
   sum_list (bounded_sleep d) = max 0 d \<and>
   transitions (run cfg hk inps) = near_readings cfg inps"
proof -
  have "tick cfg hk st inp =
        (\<lparr>last_mm = Some mm, obstacle = False\<rparr>,
         [ReadMm] @ status hk (Some mm) (if \<not> obstacle st then ''forward'' else ''avoid'') @
         [Obstacle True] @ recovery cfg hk (choice_draw inp) (uniform_draw inp))"
    if "reading inp = Some mm" and "mm \<le> near_mm cfg"
    using that by (simp add: tick_def Let_def)
  moreover have "sensor_reads (snd (tick cfg hk st inp)) = 1"
    if "reading inp = Some mm" and "mm \<le> near_mm cfg"
    using that by (simp add: tick_def Let_def sensor_reads_def status_def
        sensor_reads_recovery [unfolded sensor_reads_def])
  moreover have "transitions (snd (tick cfg hk st inp)) = 1"
    if "reading inp = Some mm" and "mm \<le> near_mm cfg"
    using that by (simp add: transitions_tick)
  ultimately show ?thesis
    using random_choice_direction [of k]
      random_uniform_range [of "turn_s_min cfg" "turn_s_max cfg" u]
    by (simp add: tick_recovery_events bounded_sleep_total transitions_run)
qed

theorem near_reading_runs_recovery_witness:
  "tick AutoAvoidConfig_default all_hooks \<lparr>last_mm = Some 400, obstacle = False\<rparr> (measured 150) =
     (\<lparr>last_mm = Some 150, obstacle = False\<rparr>,
      [ReadMm, Status (Some 150) ''forward'', Obstacle True,
       Stop, Beat 0 0, BoundedSleep (8/100),
       DriveArcade (- (18/100)) 0, Beat (- (18/100)) 0, BoundedSleep (40/100),
       DriveArcade 0 (- (55/100)), Beat 0 (- (55/100)), BoundedSleep (35/100),
       Stop, Beat 0 0, BoundedSleep (5/100), Obstacle False]) \<and>
   (35/100 :: real) \<le> random_uniform (35/100) (70/100) (1/2) \<and>
   random_uniform (35/100) (70/100) (1/2) \<le> (70/100 :: real) \<and>
   sum_list (bounded_sleep (40/100)) = 40/100 \<and>
   transitions (run AutoAvoidConfig_default all_hooks (map measured [400, 400, 150, 150, 150])) = 3"
  using near_reading_runs_recovery
      [of "measured 150" 150 AutoAvoidConfig_default all_hooks
          "\<lparr>last_mm = Some 400, obstacle = False\<rparr>" 0 "1/2" "40/100"
          "map measured [400, 400, 150, 150, 150]"]
  by (simp add: measured_def AutoAvoidConfig_default_def AutoAvoidConfig_init_def all_hooks_def
      beat_def status_def random_choice_def random_uniform_def near_readings_def)

subsection \<open>Sensor failures\<close>

lemma tick_read_failed:
  "reading inp = None \<Longrightarrow>
   tick cfg hk st inp =
     (st, [ReadMm, Stop] @ status hk (last_mm st) ''sensor_error'' @ [BoundedSleep (2/10)])"
  by (simp add: tick_def)

lemma run_loop_failures:
  "\<forall>i\<in>set fails. reading i = None \<Longrightarrow>
   run_loop cfg hk st (fails @ rest) =
     (fst (run_loop cfg hk st rest),
      concat (replicate (length fails)
        ([ReadMm, Stop] @ status hk (last_mm st) ''sensor_error'' @ [BoundedSleep (2/10)])) @
      snd (run_loop cfg hk st rest))"
proof (induction fails)
  case Nil
  show ?case by simp
next
  case (Cons i fails)
  then have i: "reading i = None" and rest: "\<forall>j\<in>set fails. reading j = None" by simp_all
  have "run_loop cfg hk st ((i # fails) @ rest) =
      (fst (run_loop cfg hk st (fails @ rest)),
       ([ReadMm, Stop] @ status hk (last_mm st) ''sensor_error'' @ [BoundedSleep (2/10)]) @
       snd (run_loop cfg hk st (fails @ rest)))"
    by (simp only: append_Cons run_loop_Cons tick_read_failed [OF i] fst_conv snd_conv)
  then show ?case by (simp add: Cons.IH [OF rest])
qed

text \<open>
  Claim C8: an iteration whose sensor read raises calls \<^verbatim>\<open>stop()\<close>, reports the state
  \<open>sensor_error\<close> with the last distance read (to the status callback, when one was
  passed), sleeps a bounded 200 ms and leaves the loop state as it was. After any number
  of such iterations in a row the loop goes on with the next reading from the same
  state: the failures end nothing.
\<close>

theorem sensor_error_is_transient:
  "(reading inp = None \<longrightarrow>
      tick cfg hk st inp =
        (st, [ReadMm, Stop] @ status hk (last_mm st) ''sensor_error'' @ [BoundedSleep (2/10)]) \<and>
      status \<lparr>heartbeat = hb, on_status = True\<rparr> (last_mm st) ''sensor_error'' =
        [Status (last_mm st) ''sensor_error'']) \<and>
   ((\<forall>i\<in>set fails. reading i = None) \<longrightarrow>
      run_loop cfg hk st (fails @ rest) =
        (fst (run_loop cfg hk st rest),
         concat (replicate (length fails)
           ([ReadMm, Stop] @ status hk (last_mm st) ''sensor_error'' @ [BoundedSleep (2/10)])) @
         snd (run_loop cfg hk st rest))) \<and>
   sum_list (bounded_sleep (2/10)) = 2/10"
  using tick_read_failed [of inp cfg hk st] run_loop_failures [of fails cfg hk st rest]
  by (simp add: bounded_sleep_total status_def)

theorem sensor_error_is_transient_witness:
  "run_loop AutoAvoidConfig_default all_hooks \<lparr>last_mm = Some 300, obstacle = False\<rparr>
     ([read_failed, read_failed, read_failed] @ [measured 500]) =
     (\<lparr>last_mm = Some 500, obstacle = False\<rparr>,
      [ReadMm, Stop, Status (Some 300) ''sensor_error'', BoundedSleep (2/10),
       ReadMm, Stop, Status (Some 300) ''sensor_error'', BoundedSleep (2/10),
       ReadMm, Stop, Status (Some 300) ''sensor_error'', BoundedSleep (2/10),
       ReadMm, Status (Some 500) ''forward'', DriveArcade (22/100) 0, Beat (22/100) 0,
       Sleep (1/15)])"
  using sensor_error_is_transient
      [of read_failed AutoAvoidConfig_default all_hooks
          "\<lparr>last_mm = Some 300, obstacle = False\<rparr>" True
          "[read_failed, read_failed, read_failed]" "[measured 500]"]
  by (simp add: read_failed_def measured_def tick_def Let_def AutoAvoidConfig_default_def
      AutoAvoidConfig_init_def all_hooks_def beat_def status_def period_s_def
      numeral_3_eq_3)


section \<open>Properties of the configuration\<close>

text \<open>
  Claim C7, as stated, fails: the constructors take a configuration with a forward speed
  of 7, a negative reverse speed, \<open>near_mm = 500\<close> above \<open>clear_mm = 100\<close>, a negative
  back-up time, \<open>turn_s_min\<close> above \<open>turn_s_max\<close> and a loop rate of 0, and a calibration
  with multipliers 0 and \<open>-1\<close> and \<open>max_pwm = 5\<close>, and hand back objects that hold these
  values.
\<close>

theorem invalid_configuration_accepted:
  "\<not> config_valid (AutoAvoidConfig_init 41 7 (-1) 2 100 500 (-1) 3 1 0) \<and>
   fwd_speed (AutoAvoidConfig_init 41 7 (-1) 2 100 500 (-1) 3 1 0) = 7 \<and>
   near_mm (AutoAvoidConfig_init 41 7 (-1) 2 100 500 (-1) 3 1 0) = 500 \<and>
   clear_mm (AutoAvoidConfig_init 41 7 (-1) 2 100 500 (-1) 3 1 0) = 100 \<and>
   loop_hz (AutoAvoidConfig_init 41 7 (-1) 2 100 500 (-1) 3 1 0) = 0 \<and>
   \<not> calibration_valid (MotorController_init 0 (-1) 5) \<and>
   max_pwm (MotorController_init 0 (-1) 5) = 5 \<and>
   left_mult (MotorController_init 0 (-1) 5) = 0 \<and>
   right_mult (MotorController_init 0 (-1) 5) = -1"
  by (simp add: config_valid_def calibration_valid_def AutoAvoidConfig_init_def
      MotorController_init_def stop_def enable_def)

text \<open>
  Claim C7, amended: no constructor checks a range. \<^verbatim>\<open>AutoAvoidConfig\<close> and
  \<^verbatim>\<open>MotorController\<close> store every value as given and raise nothing. \<^verbatim>\<open>from_env\<close>
  takes the default for a variable that is unset or does not parse, truncates the two
  thresholds towards zero and passes every other number on as it is; it raises exactly
  when a threshold variable is infinite or NaN, and otherwise returns the configuration,
  valid or not. Values out of range are normalized where they are used: the loop period
  is \<open>1 / max(1, loop_hz)\<close>, hence in \<open>(0, 1]\<close>, and a bounded sleep treats a negative time
  as zero.
\<close>

theorem constructors_store_unchecked:
  "AutoAvoidConfig_init a fs bs ts cm nm bsec tmin tmax hz =
     \<lparr>addr = a, fwd_speed = fs, back_speed = bs, turn_steer = ts, clear_mm = cm,
      near_mm = nm, back_s = bsec, turn_s_min = tmin, turn_s_max = tmax, loop_hz = hz\<rparr> \<and>
   left_mult (MotorController_init lm rm mp) = lm \<and>
   right_mult (MotorController_init lm rm mp) = rm \<and>
   max_pwm (MotorController_init lm rm mp) = mp \<and>
   (env name = None \<longrightarrow> env_float env name dflt = dflt) \<and>
   (env name = Some v \<longrightarrow> env_float env name dflt = v) \<and>
   (envi name = None \<longrightarrow> env_int envi name k = k) \<and>
   (envi name = Some j \<longrightarrow> env_int envi name k = j) \<and>
   (env_float envt ''AUTO_CLEAR_MM'' (Finite 350) = Finite c \<and>
    env_float envt ''AUTO_NEAR_MM'' (Finite 220) = Finite n \<longrightarrow>
      from_env envf envt envi =
        Inr \<lparr>addr = env_int envi ''VL53L0X_ADDR'' 41,
             fwd_speed = env_float envf ''AUTO_FWD_SPEED'' (22/100),
             back_speed = env_float envf ''AUTO_BACK_SPEED'' (18/100),
             turn_steer = env_float envf ''AUTO_TURN_STEER'' (55/100),
             clear_mm = truncated c,
             near_mm = truncated n,
             back_s = env_float envf ''AUTO_BACK_S'' (40/100),
             turn_s_min = env_float envf ''AUTO_TURN_S_MIN'' (35/100),
             turn_s_max = env_float envf ''AUTO_TURN_S_MAX'' (70/100),
             loop_hz = env_float envf ''AUTO_LOOP_HZ'' 15\<rparr>) \<and>
   ((\<exists>e. from_env envf envt envi = Inl e) \<longleftrightarrow>
      \<not> (is_finite (env_float envt ''AUTO_CLEAR_MM'' (Finite 350)) \<and>
         is_finite (env_float envt ''AUTO_NEAR_MM'' (Finite 220)))) \<and>
   (truncated x = (if 0 \<le> x then \<lfloor>x\<rfloor> else \<lceil>x\<rceil>)) \<and>
   period_s cfg = 1 / max 1 (loop_hz cfg) \<and> 0 < period_s cfg \<and> period_s cfg \<le> 1 \<and>
   bounded_sleep d = bounded_sleep (max 0 d)"
proof -
  have "0 < max 1 (loop_hz cfg)" by simp
  then have p0: "0 < period_s cfg" unfolding period_s_def by simp
  have p1: "period_s cfg \<le> 1" unfolding period_s_def by (simp add: le_max_iff_disj)
  have raises: "(\<exists>e. from_env envf envt envi = Inl e) \<longleftrightarrow>
      \<not> (is_finite (env_float envt ''AUTO_CLEAR_MM'' (Finite 350)) \<and>
         is_finite (env_float envt ''AUTO_NEAR_MM'' (Finite 220)))"
    by (cases "env_float envt ''AUTO_CLEAR_MM'' (Finite 350)";
        cases "env_float envt ''AUTO_NEAR_MM'' (Finite 220)")
       (simp_all add: from_env_def)
  have stores: "from_env envf envt envi =
        Inr \<lparr>addr = env_int envi ''VL53L0X_ADDR'' 41,
             fwd_speed = env_float envf ''AUTO_FWD_SPEED'' (22/100),
             back_speed = env_float envf ''AUTO_BACK_SPEED'' (18/100),
             turn_steer = env_float envf ''AUTO_TURN_STEER'' (55/100),
             clear_mm = truncated c,
             near_mm = truncated n,
             back_s = env_float envf ''AUTO_BACK_S'' (40/100),
             turn_s_min = env_float envf ''AUTO_TURN_S_MIN'' (35/100),
             turn_s_max = env_float envf ''AUTO_TURN_S_MAX'' (70/100),
             loop_hz = env_float envf ''AUTO_LOOP_HZ'' 15\<rparr>"
    if "env_float envt ''AUTO_CLEAR_MM'' (Finite 350) = Finite c"
      and "env_float envt ''AUTO_NEAR_MM'' (Finite 220) = Finite n"
    using that by (simp add: from_env_def AutoAvoidConfig_init_def truncated_def)
  have envs: "(env name = None \<longrightarrow> env_float env name dflt = dflt) \<and>
   (env name = Some v \<longrightarrow> env_float env name dflt = v) \<and>
   (envi name = None \<longrightarrow> env_int envi name k = k) \<and>
   (envi name = Some j \<longrightarrow> env_int envi name k = j)"
    by (simp add: env_float_def env_int_def)
  have ctors: "AutoAvoidConfig_init a fs bs ts cm nm bsec tmin tmax hz =
     \<lparr>addr = a, fwd_speed = fs, back_speed = bs, turn_steer = ts, clear_mm = cm,
      near_mm = nm, back_s = bsec, turn_s_min = tmin, turn_s_max = tmax, loop_hz = hz\<rparr> \<and>
   left_mult (MotorController_init lm rm mp) = lm \<and>
   right_mult (MotorController_init lm rm mp) = rm \<and>
   max_pwm (MotorController_init lm rm mp) = mp"
    by (simp add: AutoAvoidConfig_init_def MotorController_init_def stop_def enable_def)
  have rest: "truncated x = (if 0 \<le> x then \<lfloor>x\<rfloor> else \<lceil>x\<rceil>) \<and>
      period_s cfg = 1 / max 1 (loop_hz cfg) \<and> bounded_sleep d = bounded_sleep (max 0 d)"
    by (simp add: truncated_def period_s_def bounded_sleep_def)
  show ?thesis
    using ctors envs stores raises rest p0 p1 by blast
qed

text \<open>
  An environment with a forward speed of 7, a loop rate of \<open>-3\<close> and the thresholds 349.9
  and 0.5: \<^verbatim>\<open>from_env\<close> returns the configuration with 7 and \<open>-3\<close> as they are and the
  thresholds 349 and 0. With \<^verbatim>\<open>AUTO_CLEAR_MM\<close> infinite it raises.
\<close>

theorem constructors_store_unchecked_witness:
  "from_env (\<lambda>n. if n = ''AUTO_FWD_SPEED'' then Some 7
                 else if n = ''AUTO_LOOP_HZ'' then Some (- 3) else None)
            (\<lambda>n. if n = ''AUTO_CLEAR_MM'' then Some (Finite (3499/10))
                 else if n = ''AUTO_NEAR_MM'' then Some (Finite (1/2)) else None)
            no_env =
     Inr \<lparr>addr = 41, fwd_speed = 7, back_speed = 18/100, turn_steer = 55/100,
          clear_mm = 349, near_mm = 0, back_s = 40/100, turn_s_min = 35/100,
          turn_s_max = 70/100, loop_hz = - 3\<rparr> \<and>
   from_env no_env (\<lambda>n. if n = ''AUTO_CLEAR_MM'' then Some PosInf else None) no_env =
     Inl OverflowError \<and>
   max_pwm (MotorController_init 0 (-1) 5) = 5 \<and>
   period_s (AutoAvoidConfig_init 41 7 (-1) 2 100 500 (-1) 3 1 (-3)) = 1 \<and>
   bounded_sleep (-1) = bounded_sleep 0"
  using constructors_store_unchecked
      [of 41 7 "-1" 2 100 500 "-1" 3 1 "-3" 0 "-1" 5
          "no_env :: string \<Rightarrow> real option" "''X''" 0 0 no_env 0 0
          "\<lambda>n. if n = ''AUTO_CLEAR_MM'' then Some (Finite (3499/10))
               else if n = ''AUTO_NEAR_MM'' then Some (Finite (1/2)) else None"
          "3499/10" "1/2"
          "\<lambda>n. if n = ''AUTO_FWD_SPEED'' then Some 7
               else if n = ''AUTO_LOOP_HZ'' then Some (- 3) else None"
          0 "AutoAvoidConfig_init 41 7 (-1) 2 100 500 (-1) 3 1 (-3)" "-1"]
    constructors_store_unchecked
      [of 41 7 "-1" 2 100 500 "-1" 3 1 "-3" 0 "-1" 5
          "no_env :: string \<Rightarrow> real option" "''X''" 0 0 no_env 0 0
          "\<lambda>n. if n = ''AUTO_CLEAR_MM'' then Some PosInf else None"
          350 220 no_env
          0 "AutoAvoidConfig_init 41 7 (-1) 2 100 500 (-1) 3 1 (-3)" "-1"]
  by (simp add: env_float_def env_int_def no_env_def truncated_def from_env_def
      AutoAvoidConfig_init_def)

section \<open>Properties of the teleop server\<close>

subsection \<open>The deadman watchdog\<close>

lemma deadman_round_idle: "last_cmd_ts st = 0 \<Longrightarrow> deadman_round st now = (st, False)"
  by (simp add: deadman_round_def)

lemma deadman_round_stale:
  "last_cmd_ts st \<noteq> 0 \<Longrightarrow> DEADMAN_S st < now - last_cmd_ts st \<Longrightarrow>
   deadman_round st now = (st\<lparr>ctl := stop (ctl st)\<rparr>, True)"
  by (simp add: deadman_round_def)

lemma watchdog_idle_run:
  "last_cmd_ts st = 0 \<Longrightarrow> teleop_run st (watchdog_rounds ts) = Inr (st, [])"
  by (induction ts) (simp_all add: watchdog_rounds_def deadman_round_idle)

text \<open>
  Rounds that start at \<open>w0\<close> and come every \<open>P\<close> seconds: one of them falls in the period
  that follows any time \<open>T\<close> not before \<open>w0\<close>.
\<close>

lemma period_wake:
  fixes T P w0 :: real
  assumes P: "0 < P" and w0: "w0 \<le> T"
  shows "\<exists>k::nat. T < w0 + real k * P \<and> w0 + real k * P \<le> T + P"
proof -
  define k where "k = nat (\<lfloor>(T - w0) / P\<rfloor> + 1)"
  have nn: "0 \<le> (T - w0) / P" using P w0 by simp
  then have fl: "0 \<le> \<lfloor>(T - w0) / P\<rfloor>" by simp
  then have rk: "real k = of_int \<lfloor>(T - w0) / P\<rfloor> + 1" by (simp add: k_def)
  have lo: "(T - w0) / P < real k" unfolding rk by linarith
  have hi: "real k \<le> (T - w0) / P + 1" unfolding rk by linarith
  from lo P have "T - w0 < real k * P" by (simp add: pos_divide_less_eq)
  moreover from hi P have "real k * P \<le> ((T - w0) / P + 1) * P"
    by (intro mult_right_mono) auto
  moreover have "((T - w0) / P + 1) * P = T - w0 + P" using P by (simp add: distrib_right)
  ultimately show ?thesis by (intro exI [of _ k]) auto
qed

text \<open>
  Claim C4, as stated, fails: in the execution \<open>gap_timeline\<close> the two commands are
  0.36 s apart, more than the threshold of 0.35 s, and the watchdog runs every 0.05 s,
  yet it never calls \<^verbatim>\<open>stop()\<close>. The round at 1.34 s finds the record 0.34 s old, and
  the round at 1.39 s finds the record of 1.36 s.
\<close>

theorem gap_above_threshold_without_stop:
  "DEADMAN_S teleop_default < 136/100 - 100/100 \<and>
   watchdog_stops teleop_default gap_timeline = Some []"
  by (simp add: watchdog_stops_def gap_timeline_def teleop_default_def teleop_init_def
     api_drive_def check_token_def drive_request_def json_get_def drive_arcade_def
     arcade_mix_def arcade_unit_def py_div_def clamp_def Let_def deadman_round_def)

text \<open>
  Claim C4, amended: every watchdog round that finds a recorded (nonzero) timestamp
  older than \<^verbatim>\<open>DEADMAN_S\<close> calls \<^verbatim>\<open>stop()\<close>. With rounds every \<open>P\<close> seconds, started
  no later than the moment the record gets too old, a round falls within \<open>P\<close> seconds
  after that moment, and it calls \<^verbatim>\<open>stop()\<close> provided no newer command was recorded
  before it (the record it reads is still the one of \<open>st\<close>).
\<close>

theorem deadman_stops_stale_record:
  "(last_cmd_ts st \<noteq> 0 \<and> DEADMAN_S st < now - last_cmd_ts st \<longrightarrow>
      deadman_round st now = (st\<lparr>ctl := stop (ctl st)\<rparr>, True)) \<and>
   (last_cmd_ts st \<noteq> 0 \<and> 0 < P \<and> w0 \<le> last_cmd_ts st + DEADMAN_S st \<longrightarrow>
      (\<exists>k::nat. last_cmd_ts st + DEADMAN_S st < w0 + real k * P \<and>
                w0 + real k * P \<le> last_cmd_ts st + DEADMAN_S st + P \<and>
                snd (deadman_round st (w0 + real k * P))))"
proof (intro conjI impI)
  assume "last_cmd_ts st \<noteq> 0 \<and> DEADMAN_S st < now - last_cmd_ts st"
  then show "deadman_round st now = (st\<lparr>ctl := stop (ctl st)\<rparr>, True)"
    by (simp add: deadman_round_stale)
next
  assume a: "last_cmd_ts st \<noteq> 0 \<and> 0 < P \<and> w0 \<le> last_cmd_ts st + DEADMAN_S st"
  then obtain k :: nat where k: "last_cmd_ts st + DEADMAN_S st < w0 + real k * P"
      "w0 + real k * P \<le> last_cmd_ts st + DEADMAN_S st + P"
    using period_wake [of P w0 "last_cmd_ts st + DEADMAN_S st"] by blast
  from a k(1) have "snd (deadman_round st (w0 + real k * P))"
    by (simp add: deadman_round_def)
  with k show "\<exists>k::nat. last_cmd_ts st + DEADMAN_S st < w0 + real k * P \<and>
                w0 + real k * P \<le> last_cmd_ts st + DEADMAN_S st + P \<and>
                snd (deadman_round st (w0 + real k * P))" by blast
qed

text \<open>
  A command recorded at 1.00 s with the default threshold: the round at 1.39 s stops the
  motors, and among rounds every 0.05 s from 1.04 s one falls in \<open>(1.35, 1.40]\<close> and stops.
\<close>

theorem deadman_stops_stale_record_witness:
  "deadman_round (teleop_default\<lparr>last_cmd_ts := 1\<rparr>) (139/100) =
     (teleop_default\<lparr>last_cmd_ts := 1, ctl := stop (ctl teleop_default)\<rparr>, True) \<and>
   (\<exists>k::nat. 135/100 < 104/100 + real k * (5/100) \<and>
      104/100 + real k * (5/100) \<le> (140/100 :: real) \<and>
      snd (deadman_round (teleop_default\<lparr>last_cmd_ts := 1\<rparr>) (104/100 + real k * (5/100))))"
  using deadman_stops_stale_record
      [of "teleop_default\<lparr>last_cmd_ts := 1\<rparr>" "139/100" "5/100" "104/100"]
  by (simp add: teleop_default_def teleop_init_def)

text \<open>
  Claim C9: while the timestamp is zero, a watchdog round does nothing, at whatever
  time, an execution of watchdog rounds alone never calls \<^verbatim>\<open>stop()\<close>, and the status
  reports no age. The module starts with the timestamp zero.
\<close>

theorem idle_watchdog_never_stops:
  "last_cmd_ts (teleop_init deadman mp lm rm token) = 0 \<and>
   (last_cmd_ts st = 0 \<longrightarrow>
      deadman_round st now = (st, False) \<and>
      teleop_run st (watchdog_rounds ts) = Inr (st, []) \<and>
      rep_last_cmd_age_s (api_status st now) = None)"
  by (simp add: deadman_round_idle watchdog_idle_run api_status_def teleop_init_def)

theorem idle_watchdog_never_stops_witness:
  "last_cmd_ts teleop_default = 0 \<and>
   deadman_round teleop_default 1000000 = (teleop_default, False) \<and>
   teleop_run teleop_default (watchdog_rounds [1/20, 1/10, 1000000]) =
     Inr (teleop_default, []) \<and>
   rep_last_cmd_age_s (api_status teleop_default 1000000) = None"
  using idle_watchdog_never_stops
      [of "35/100" "6/10" 1 "87/100" "[]" teleop_default 1000000 "[1/20, 1/10, 1000000]"]
  by (simp add: teleop_default_def)

subsection \<open>The command record\<close>

text \<open>
  Claim C10: an accepted drive request stores the throttle and steering of its body in
  the command record as they are, whatever their size, and the status reports these
  stored values. The controller is driven with the same raw values, and the result is
  the one of driving with the values clamped to \<open>[-1, 1]\<close>: the clamping is in
  \<^verbatim>\<open>drive_arcade\<close> alone.
\<close>

theorem api_drive_stores_raw_command:
  "check_token st req \<Longrightarrow>
    (\<exists>st'. api_drive st now req = Inr (st', OkTrue) \<and>
       last_cmd_ts st' = now \<and>
       last_throttle st' = json_get req ''throttle'' 0 \<and>
       last_steering st' = json_get req ''steering'' 0 \<and>
       rep_throttle (api_status st' later) = json_get req ''throttle'' 0 \<and>
       rep_steering (api_status st' later) = json_get req ''steering'' 0 \<and>
       drive_arcade (ctl st) (json_get req ''throttle'' 0) (json_get req ''steering'' 0) =
         Inr (ctl st') \<and>
       drive_arcade (ctl st) (clamp (json_get req ''throttle'' 0) (-1) 1)
          (clamp (json_get req ''steering'' 0) (-1) 1) = Inr (ctl st'))"
proof -
  assume tok: "check_token st req"
  define t where "t = json_get req ''throttle'' 0"
  define s where "s = json_get req ''steering'' 0"
  obtain c where c: "drive_arcade (ctl st) t s = Inr c"
    using drive_arcade_total by blast
  have idem: "clamp (clamp v (-1) 1) (-1) 1 = clamp v (-1) 1" for v
    by (simp add: clamp_def)
  have "drive_arcade (ctl st) (clamp t (-1) 1) (clamp s (-1) 1) = drive_arcade (ctl st) t s"
    by (simp add: drive_arcade_def arcade_mix_def arcade_unit_def idem)
  with tok c show ?thesis
    by (simp add: api_drive_def Let_def api_status_def t_def [symmetric] s_def [symmetric])
qed

theorem api_drive_stores_raw_command_witness:
  "check_token teleop_default (drive_request (5/2) (-3)) \<and>
   (\<exists>st'. api_drive teleop_default 1000 (drive_request (5/2) (-3)) = Inr (st', OkTrue) \<and>
      last_throttle st' = 5/2 \<and> last_steering st' = -3 \<and>
      rep_throttle (api_status st' 1001) = 5/2 \<and> rep_steering (api_status st' 1001) = -3 \<and>
      drive_arcade (ctl teleop_default) 1 (-1) = Inr (ctl st'))"
  using api_drive_stores_raw_command [of teleop_default "drive_request (5/2) (-3)" 1000 1001]
  by (auto simp add: check_token_def teleop_default_def teleop_init_def drive_request_def
      json_get_def clamp_def)


end
